theory Spec2Isabelle
  imports Complex_Main
begin

section \<open>Python values\<close>

text \<open>
  Python integers are unbounded and are modelled by \<open>int\<close>. Python floats are modelled
  by exact rationals: every arithmetic operation of the source is taken without rounding.
  The exceptions the modelled code can raise are values of \<open>py_error\<close>, and a
  computation that may raise returns \<open>py_error + 'a\<close>.
\<close>

datatype py_error = ZeroDivisionError | KeyError | DetectorError | TrackerError

text \<open>True division \<open>a / b\<close>: raises on a zero divisor.\<close>

definition py_truediv :: "rat \<Rightarrow> rat \<Rightarrow> py_error + rat" where
  "py_truediv a b = (if b = 0 then Inl ZeroDivisionError else Inr (a / b))"

section \<open>object\_tracker.py: bounding boxes and IoU\<close>

text \<open>A bounding box is the tuple \<open>(x, y, width, height)\<close> of Python integers.\<close>

type_synonym bbox = "int \<times> int \<times> int \<times> int"

text \<open>
  \<open>ObjectTracker._calculate_iou\<close>. The early return and the guard \<open>union > 0\<close> are
  kept as branches; the quotient is Python's true division.
\<close>

definition calculate_iou :: "bbox \<Rightarrow> bbox \<Rightarrow> py_error + rat" where
  "calculate_iou bbox1 bbox2 =
     (case bbox1 of (x1, y1, w1, h1) \<Rightarrow>
      case bbox2 of (x2, y2, w2, h2) \<Rightarrow>
        let x_left = max x1 x2;
            y_top = max y1 y2;
            x_right = min (x1 + w1) (x2 + w2);
            y_bottom = min (y1 + h1) (y2 + h2)
        in if x_right < x_left \<or> y_bottom < y_top then Inr 0
           else
             let intersection = (x_right - x_left) * (y_bottom - y_top);
                 area1 = w1 * h1;
                 area2 = w2 * h2;
                 union = area1 + area2 - intersection
             in if union > 0 then py_truediv (of_int intersection) (of_int union)
                else Inr 0)"

text \<open>
  The geometric reading of a box, used to state what IoU computes: the set of pixels
  it covers, the area of a box and the number of pixels two boxes share.
\<close>

definition box_pixels :: "bbox \<Rightarrow> (int \<times> int) set" where
  "box_pixels b = (case b of (x, y, w, h) \<Rightarrow> {x ..< x + w} \<times> {y ..< y + h})"

definition box_area :: "bbox \<Rightarrow> int" where
  "box_area b = (case b of (x, y, w, h) \<Rightarrow> w * h)"

definition intersection_area :: "bbox \<Rightarrow> bbox \<Rightarrow> nat" where
  "intersection_area b1 b2 = card (box_pixels b1 \<inter> box_pixels b2)"

definition boxes_disjoint :: "bbox \<Rightarrow> bbox \<Rightarrow> bool" where
  "boxes_disjoint b1 b2 \<longleftrightarrow> box_pixels b1 \<inter> box_pixels b2 = {}"

section \<open>config.py\<close>

definition FRAME_WIDTH :: int where "FRAME_WIDTH = 640"
definition FRAME_HEIGHT :: int where "FRAME_HEIGHT = 480"
definition CAMERA_DISTANCE :: rat where "CAMERA_DISTANCE = 1 / 2"
definition MIN_OBJECT_SIZE :: int where "MIN_OBJECT_SIZE = 500"
definition MAX_OBJECT_SIZE :: int where "MAX_OBJECT_SIZE = 200000"
definition TRACK_CLASSES :: "string list" where "TRACK_CLASSES = [''car'']"

section \<open>object\_tracker.py: detected objects\<close>

text \<open>
  The class \<open>DetectedObject\<close>. The constructor sets \<open>track_id\<close> and \<open>position_3d\<close> to
  \<open>None\<close>; the wall-clock \<open>timestamp\<close> is never read by the modelled code and is left out.
\<close>

record detected_object =
  bbox :: bbox
  confidence :: rat
  class_id :: int
  class_name :: string
  camera_id :: string
  track_id :: "nat option"
  position_3d :: "(rat \<times> rat \<times> rat) option"

definition DetectedObject :: "bbox \<Rightarrow> rat \<Rightarrow> int \<Rightarrow> string \<Rightarrow> string \<Rightarrow> detected_object" where
  "DetectedObject b c i n cam =
     \<lparr>bbox = b, confidence = c, class_id = i, class_name = n, camera_id = cam,
      track_id = None, position_3d = None\<rparr>"

text \<open>\<open>get_center\<close> uses floor division, which is \<open>div\<close> on \<open>int\<close>.\<close>

definition get_center :: "detected_object \<Rightarrow> int \<times> int" where
  "get_center obj = (case bbox obj of (x, y, w, h) \<Rightarrow> (x + w div 2, y + h div 2))"

definition get_area :: "detected_object \<Rightarrow> int" where
  "get_area obj = (case bbox obj of (x, y, w, h) \<Rightarrow> w * h)"

section \<open>object\_tracker.py: position estimates\<close>

text \<open>
  \<open>ObjectTracker._triangulate_position\<close>. The body of the \<open>try\<close> block is
  \<open>triangulate_body\<close>; the \<open>except\<close> clause turns every exception into \<open>None\<close>.
  The float literal \<open>0.01\<close> is the rational \<open>1/100\<close>.
\<close>

definition triangulate_body ::
  "detected_object \<Rightarrow> detected_object \<Rightarrow> py_error + (rat \<times> rat \<times> rat) option" where
  "triangulate_body obj1 obj2 =
     (let center1 = get_center obj1; center2 = get_center obj2 in
      case py_truediv (of_int (fst center1 - FRAME_WIDTH div 2)) (of_int (FRAME_WIDTH div 2)) of
        Inl e \<Rightarrow> Inl e | Inr x1 \<Rightarrow>
      case py_truediv (of_int (snd center1 - FRAME_HEIGHT div 2)) (of_int (FRAME_HEIGHT div 2)) of
        Inl e \<Rightarrow> Inl e | Inr y1 \<Rightarrow>
      case py_truediv (of_int (fst center2 - FRAME_WIDTH div 2)) (of_int (FRAME_WIDTH div 2)) of
        Inl e \<Rightarrow> Inl e | Inr x2 \<Rightarrow>
      case py_truediv (of_int (snd center2 - FRAME_HEIGHT div 2)) (of_int (FRAME_HEIGHT div 2)) of
        Inl e \<Rightarrow> Inl e | Inr y2 \<Rightarrow>
      let disparity = \<bar>x1 - x2\<bar> in
      if disparity < 1 / 100 then Inr None
      else
        case py_truediv CAMERA_DISTANCE disparity of
          Inl e \<Rightarrow> Inl e | Inr depth \<Rightarrow>
        let x_3d = (x1 + x2) * depth / 2;
            y_3d = (y1 + y2) * depth / 2;
            z_3d = depth
        in Inr (Some (x_3d, y_3d, z_3d)))"

definition triangulate_position ::
  "detected_object \<Rightarrow> detected_object \<Rightarrow> (rat \<times> rat \<times> rat) option" where
  "triangulate_position obj1 obj2 =
     (case triangulate_body obj1 obj2 of Inl e \<Rightarrow> None | Inr r \<Rightarrow> r)"

text \<open>
  \<open>ObjectTracker._estimate_single_camera_position\<close>, with the same treatment of the
  \<open>try\<close> block. \<open>estimated_depth\<close> is the depth computed from the area alone.
\<close>

definition estimated_depth :: "int \<Rightarrow> py_error + rat" where
  "estimated_depth area =
     (let max_area = of_int (FRAME_WIDTH * FRAME_HEIGHT) * (1 / 10) in
      case py_truediv (of_int area) max_area of
        Inl e \<Rightarrow> Inl e | Inr q \<Rightarrow>
      let depth_factor = max (1 / 10) (min 1 q);
          min_depth = 1;
          max_depth = 10
      in Inr (min_depth + (max_depth - min_depth) * (1 - depth_factor)))"

definition estimate_body ::
  "detected_object \<Rightarrow> string \<Rightarrow> py_error + (rat \<times> rat \<times> rat) option" where
  "estimate_body obj cam =
     (let center = get_center obj in
      case py_truediv (of_int (fst center - FRAME_WIDTH div 2)) (of_int (FRAME_WIDTH div 2)) of
        Inl e \<Rightarrow> Inl e | Inr x_norm \<Rightarrow>
      case py_truediv (of_int (snd center - FRAME_HEIGHT div 2)) (of_int (FRAME_HEIGHT div 2)) of
        Inl e \<Rightarrow> Inl e | Inr y_norm \<Rightarrow>
      case estimated_depth (get_area obj) of
        Inl e \<Rightarrow> Inl e | Inr depth \<Rightarrow>
      let x_3d = (if cam = ''camera1'' then - CAMERA_DISTANCE / 2 + x_norm * depth
                  else CAMERA_DISTANCE / 2 + x_norm * depth);
          y_3d = y_norm * depth;
          z_3d = depth
      in Inr (Some (x_3d, y_3d, z_3d)))"

definition estimate_single_camera_position ::
  "detected_object \<Rightarrow> string \<Rightarrow> (rat \<times> rat \<times> rat) option" where
  "estimate_single_camera_position obj cam =
     (case estimate_body obj cam of Inl e \<Rightarrow> None | Inr r \<Rightarrow> r)"

text \<open>
  Notions used to state the claims about positions: the normalized coordinates of a pixel
  centre relative to the frame centre, and a centre lying inside the frame.
\<close>

definition normalized_x :: "int \<Rightarrow> rat" where
  "normalized_x cx = of_int (cx - FRAME_WIDTH div 2) / of_int (FRAME_WIDTH div 2)"

definition normalized_y :: "int \<Rightarrow> rat" where
  "normalized_y cy = of_int (cy - FRAME_HEIGHT div 2) / of_int (FRAME_HEIGHT div 2)"

definition center_in_frame :: "int \<times> int \<Rightarrow> bool" where
  "center_in_frame c \<longleftrightarrow>
     0 \<le> fst c \<and> fst c \<le> FRAME_WIDTH \<and> 0 \<le> snd c \<and> snd c \<le> FRAME_HEIGHT"

section \<open>object\_tracker.py: detection\<close>

text \<open>\<open>int(v)\<close> on a float truncates towards zero.\<close>

definition py_int :: "rat \<Rightarrow> int" where
  "py_int v = (if 0 \<le> v then \<lfloor>v\<rfloor> else \<lceil>v\<rceil>)"

text \<open>
  What the detector hands back: every result carries \<open>boxes\<close>, which may be \<open>None\<close>;
  a box carries its corner coordinates \<open>xyxy\<close>, a confidence and a class number, all
  floats. The detector is the pair of its class-name dictionary \<open>names\<close> and the call
  \<open>predict\<close>, which may raise.
\<close>

record raw_box =
  xyxy :: "rat \<times> rat \<times> rat \<times> rat"
  conf :: rat
  cls :: rat

record 'f yolo_model =
  names :: "int \<rightharpoonup> string"
  predict :: "'f \<Rightarrow> py_error + raw_box list option list"

text \<open>The conversion \<open>x, y, w, h = int(x1), int(y1), int(x2 - x1), int(y2 - y1)\<close>.\<close>

definition raw_bbox :: "raw_box \<Rightarrow> bbox" where
  "raw_bbox box =
     (case xyxy box of (x1, y1, x2, y2) \<Rightarrow> (py_int x1, py_int y1, py_int (x2 - x1), py_int (y2 - y1)))"

text \<open>
  The inner loop \<open>for box in boxes\<close> of \<open>detect_objects\<close>, appending to
  \<open>detected_objects\<close>; a class number missing from \<open>names\<close> raises \<open>KeyError\<close>.
  The counters that only feed the log are left out.
\<close>

fun boxes_loop ::
  "(int \<rightharpoonup> string) \<Rightarrow> string \<Rightarrow> raw_box list \<Rightarrow> detected_object list \<Rightarrow>
   py_error + detected_object list" where
  "boxes_loop nm cam [] detected_objects = Inr detected_objects"
| "boxes_loop nm cam (box # boxes) detected_objects =
     (case raw_bbox box of (x, y, w, h) \<Rightarrow>
      let cf = conf box;
          cid = py_int (cls box)
      in case nm cid of
           None \<Rightarrow> Inl KeyError
         | Some cname \<Rightarrow>
             if cname \<in> set TRACK_CLASSES then
               let area = w * h in
               if MIN_OBJECT_SIZE \<le> area \<and> area \<le> MAX_OBJECT_SIZE then
                 boxes_loop nm cam boxes
                   (detected_objects @ [DetectedObject (x, y, w, h) cf cid cname cam])
               else boxes_loop nm cam boxes detected_objects
             else boxes_loop nm cam boxes detected_objects)"

text \<open>The outer loop \<open>for result in results\<close>.\<close>

fun results_loop ::
  "(int \<rightharpoonup> string) \<Rightarrow> string \<Rightarrow> raw_box list option list \<Rightarrow> detected_object list \<Rightarrow>
   py_error + detected_object list" where
  "results_loop nm cam [] detected_objects = Inr detected_objects"
| "results_loop nm cam (None # results) detected_objects =
     results_loop nm cam results detected_objects"
| "results_loop nm cam (Some boxes # results) detected_objects =
     (case boxes_loop nm cam boxes detected_objects of
        Inl e \<Rightarrow> Inl e
      | Inr detected_objects' \<Rightarrow> results_loop nm cam results detected_objects')"

text \<open>
  \<open>ObjectTracker.detect_objects\<close>: no model gives the empty list, and so does any
  exception raised inside the \<open>try\<close> block.
\<close>

definition detect_objects :: "'f yolo_model option \<Rightarrow> 'f \<Rightarrow> string \<Rightarrow> detected_object list" where
  "detect_objects yolo frm cam =
     (case yolo of
        None \<Rightarrow> []
      | Some m \<Rightarrow>
          (case predict m frm of
             Inl e \<Rightarrow> []
           | Inr results \<Rightarrow>
               (case results_loop (names m) cam results [] of
                  Inl e \<Rightarrow> []
                | Inr detected_objects \<Rightarrow> detected_objects)))"





text \<open>A concrete detector answer, used to instantiate the theorems on the detection step.\<close>

definition example_results :: "raw_box list option list" where
  "example_results =
     [Some [\<lparr>xyxy = (21 / 2, 20, 111, 120), conf = 9 / 10, cls = 2\<rparr>,
            \<lparr>xyxy = (0, 0, 100, 200), conf = 8 / 10, cls = 0\<rparr>,
            \<lparr>xyxy = (5, 5, 15, 15), conf = 7 / 10, cls = 2\<rparr>],
      None]"

definition example_yolo :: "unit yolo_model" where
  "example_yolo =
     \<lparr>names = [2 \<mapsto> ''car'', 0 \<mapsto> ''person''], predict = (\<lambda>f. Inr example_results)\<rparr>"

section \<open>camera\_manager.py: strings\<close>







section \<open>camera\_manager.py: CameraStream\<close>



text \<open>
  The state of a \<open>CameraStream\<close> that the acquisition loop and the manager read or write.
  Frames are values of an arbitrary type \<open>'f\<close>. The capture handle, the thread, the lock
  and the clock-based fields (\<open>last_frame_time\<close>, \<open>fps\<close> updates) are outside the model;
  \<open>fps\<close> keeps its initial value.
\<close>

record 'f camera_stream =
  camera_source :: string
  camera_type :: string
  stream_name :: string
  frame :: "'f option"
  stopped :: bool
  fps_counter :: nat
  fps :: rat
  shot_jpg_url :: "string option"
  mjpeg_error_count :: nat
  max_mjpeg_errors :: nat

definition CameraStream :: "string \<Rightarrow> string \<Rightarrow> string \<Rightarrow> 'f camera_stream" where
  "CameraStream src nm tp =
     \<lparr>camera_source = src, camera_type = tp, stream_name = nm, frame = None, stopped = False,
      fps_counter = 0, fps = 0, shot_jpg_url = None, mjpeg_error_count = 0,
      max_mjpeg_errors = 5\<rparr>"

text \<open>
  What one iteration of \<open>CameraStream._update\<close> meets outside the program:
  the capture is missing or closed; a frame was read and resized; a frame was read but
  the resize raised; no frame was read; \<open>cv2.error\<close> was raised (with whether its message
  is one of the MJPEG messages and whether a switch to shot.jpg mode would succeed); or
  another exception was raised.
\<close>

datatype 'f read_event =
    CapUnavailable
  | GotFrame 'f
  | ResizeError
  | NoFrame
  | CvError bool bool
  | OtherError

datatype loop_status = Running | Exited

text \<open>
  The loop \<open>while not self.stopped\<close> of \<open>_update\<close>, one event per iteration, with the
  local counter \<open>consecutive_errors\<close>; \<open>max_consecutive_errors\<close> is 10. When the events
  run out the loop is still running. The truth value of \<open>self._shot_jpg_url\<close> is
  "neither \<open>None\<close> nor empty".
\<close>

definition max_consecutive_errors :: nat where
  "max_consecutive_errors = 10"

fun update_loop ::
  "'f read_event list \<Rightarrow> nat \<Rightarrow> 'f camera_stream \<Rightarrow> 'f camera_stream \<times> loop_status" where
  "update_loop [] consecutive_errors s = (s, if stopped s then Exited else Running)"
| "update_loop (e # es) consecutive_errors s =
     (if stopped s then (s, Exited)
      else case e of
        CapUnavailable \<Rightarrow> (s, Exited)
      | GotFrame f \<Rightarrow>
          update_loop es 0 (s\<lparr>frame := Some f, fps_counter := fps_counter s + 1\<rparr>)
      | ResizeError \<Rightarrow> update_loop es 0 s
      | NoFrame \<Rightarrow>
          (let consecutive_errors = consecutive_errors + 1
           in if consecutive_errors \<le> 3 then update_loop es consecutive_errors s
              else if consecutive_errors = max_consecutive_errors then (s, Exited)
              else update_loop es consecutive_errors s)
      | CvError mjpeg switch_ok \<Rightarrow>
          (let consecutive_errors = consecutive_errors + 1 in
           if mjpeg then
             (let s = s\<lparr>mjpeg_error_count := mjpeg_error_count s + 1\<rparr> in
              if mjpeg_error_count s \<ge> max_mjpeg_errors s \<and>
                 (case shot_jpg_url s of None \<Rightarrow> False | Some u \<Rightarrow> u \<noteq> [])
              then
                (if switch_ok then update_loop es 0 (s\<lparr>mjpeg_error_count := 0\<rparr>)
                 else if consecutive_errors \<ge> max_consecutive_errors then (s, Exited)
                 else update_loop es consecutive_errors s)
              else if consecutive_errors \<ge> max_consecutive_errors then (s, Exited)
              else update_loop es consecutive_errors s)
           else if consecutive_errors \<ge> max_consecutive_errors then (s, Exited)
           else update_loop es consecutive_errors s)
      | OtherError \<Rightarrow>
          (let consecutive_errors = consecutive_errors + 1
           in if consecutive_errors \<ge> max_consecutive_errors then (s, Exited)
              else update_loop es consecutive_errors s))"


definition get_frame :: "'f camera_stream \<Rightarrow> 'f option" where
  "get_frame s = frame s"


section \<open>camera\_manager.py: CameraManager\<close>

text \<open>
  The manager: the dictionary \<open>cameras\<close>, whose values are streams or \<open>None\<close> for a
  disabled camera, and the flag \<open>running\<close>.
\<close>

record 'f camera_manager =
  cameras :: "string \<rightharpoonup> 'f camera_stream option"
  running :: bool

definition CameraManager :: "'f camera_manager" where
  "CameraManager = \<lparr>cameras = Map.empty, running = False\<rparr>"

text \<open>
  \<open>CameraManager.get_frames\<close>. Indexing the dictionary with a missing key raises
  \<open>KeyError\<close>; \<open>frame1\<close> is computed before \<open>frame2\<close>.
\<close>

definition get_frames :: "'f camera_manager \<Rightarrow> py_error + ('f option \<times> 'f option)" where
  "get_frames m =
     (if \<not> running m then Inr (None, None)
      else
        case cameras m ''camera1'' of
          None \<Rightarrow> Inl KeyError
        | Some c1 \<Rightarrow>
            let frame1 = (case c1 of Some s \<Rightarrow> get_frame s | None \<Rightarrow> None) in
            case cameras m ''camera2'' of
              None \<Rightarrow> Inl KeyError
            | Some c2 \<Rightarrow>
                let frame2 = (case c2 of Some s \<Rightarrow> get_frame s | None \<Rightarrow> None)
                in Inr (frame1, frame2))"



text \<open>
  \<open>CameraManager.stop_all\<close>: the flag is cleared, every stream is stopped and the
  dictionary is emptied, so that no stream can be reached from the manager afterwards.
\<close>

definition stop_all :: "'f camera_manager \<Rightarrow> 'f camera_manager" where
  "stop_all m = m\<lparr>running := False, cameras := Map.empty\<rparr>"

text \<open>
  \<open>CameraManager.initialize_cameras\<close>. The configuration of one camera is a record;
  \<open>start\<close> stands for \<open>CameraStream.start\<close>: it gives the started stream, or \<open>None\<close>
  when the method returns \<open>False\<close>. The device index is passed already converted by
  \<open>str\<close>. The result is the manager and the returned truth value.
\<close>

record camera_config =
  cfg_type :: string
  cfg_device_index :: string
  cfg_url :: string
  cfg_name :: string
  cfg_enabled :: bool

definition initialize_cameras ::
  "'f camera_manager \<Rightarrow> camera_config \<Rightarrow> camera_config \<Rightarrow>
   ('f camera_stream \<Rightarrow> 'f camera_stream option) \<Rightarrow> 'f camera_manager \<times> bool" where
  "initialize_cameras m cfg1 cfg2 start =
     (let new = (\<lambda>cfg. CameraStream
                   (if cfg_type cfg = ''device'' then cfg_device_index cfg else cfg_url cfg)
                   (cfg_name cfg) (cfg_type cfg));
          r1 = (if cfg_enabled cfg1 then map_option Some (start (new cfg1)) else Some None)
      in case r1 of
           None \<Rightarrow> (m, False)
         | Some camera1 \<Rightarrow>
             let r2 = (if cfg_enabled cfg2 then map_option Some (start (new cfg2)) else Some None)
             in case r2 of
                  None \<Rightarrow> (m, False)
                | Some camera2 \<Rightarrow>
                    (m\<lparr>cameras := [''camera1'' \<mapsto> camera1, ''camera2'' \<mapsto> camera2],
                       running := True\<rparr>, True))"





section \<open>object\_tracker.py: identity assignment\<close>

text \<open>
  What the identity tracker hands back for one track: \<open>track_id\<close>, \<open>is_confirmed()\<close> and
  \<open>to_tlbr()\<close>. The tracker of one camera is its call \<open>update_tracks\<close>, which takes the
  detections as \<open>([x, y, w, h], confidence, class_name)\<close> and the frame, and may raise.
\<close>

record track =
  track_ident :: nat
  is_confirmed :: bool
  to_tlbr :: "rat \<times> rat \<times> rat \<times> rat"

type_synonym 'f deepsort = "(bbox \<times> rat \<times> string) list \<Rightarrow> 'f \<Rightarrow> py_error + track list"

text \<open>
  Detected objects are Python objects that several lists refer to and that the tracking
  step updates in place. The list \<open>detected_objects\<close> is modelled as the store of these
  objects, and a list of references into it as a list of indices; \<open>deref\<close> reads the
  objects a list of references points at.
\<close>

definition deref :: "detected_object list \<times> nat list \<Rightarrow> detected_object list" where
  "deref sr = (case sr of (store, refs) \<Rightarrow> map (\<lambda>i. store ! i) refs)"

text \<open>
  The inner loop \<open>for obj in detected_objects\<close> of \<open>_update_deepsort_tracking\<close>, looking
  for the best object for the box \<open>tb\<close> of a track. It reads the current \<open>bbox\<close> of every
  object; \<open>i\<close> is the index of the object at hand.
\<close>

fun best_match_loop ::
  "detected_object list \<Rightarrow> bbox \<Rightarrow> nat \<Rightarrow> nat option \<Rightarrow> rat \<Rightarrow> py_error + nat option" where
  "best_match_loop [] tb i best_obj best_iou = Inr best_obj"
| "best_match_loop (obj # rest) tb i best_obj best_iou =
     (case calculate_iou (bbox obj) tb of
        Inl e \<Rightarrow> Inl e
      | Inr iou \<Rightarrow>
          if iou > best_iou then best_match_loop rest tb (Suc i) (Some i) iou
          else best_match_loop rest tb (Suc i) best_obj best_iou)"

text \<open>
  The loop \<open>for track in tracks\<close>. A matched object gets the identity and the box of the
  track in place, and a reference to it is appended to \<open>tracked_objects\<close>. The store is
  returned also when an exception ends the loop, since the updates made so far persist.
  The bookkeeping in \<open>object_history\<close> is never read for the result and is left out.
\<close>

fun tracks_loop ::
  "track list \<Rightarrow> detected_object list \<Rightarrow> nat list \<Rightarrow>
   detected_object list \<times> (py_error + nat list)" where
  "tracks_loop [] store tracked_objects = (store, Inr tracked_objects)"
| "tracks_loop (t # ts) store tracked_objects =
     (if \<not> is_confirmed t then tracks_loop ts store tracked_objects
      else
        case to_tlbr t of (l, tp, r, b) \<Rightarrow>
        let x = py_int l; y = py_int tp; w = py_int (r - l); h = py_int (b - tp) in
        case best_match_loop store (x, y, w, h) 0 None 0 of
          Inl e \<Rightarrow> (store, Inl e)
        | Inr None \<Rightarrow> tracks_loop ts store tracked_objects
        | Inr (Some i) \<Rightarrow>
            tracks_loop ts
              (store[i := (store ! i)\<lparr>bbox := (x, y, w, h), track_id := Some (track_ident t)\<rparr>])
              (tracked_objects @ [i]))"

text \<open>
  \<open>ObjectTracker._update_deepsort_tracking\<close>. Without a tracker for the camera, and on
  any exception, the list \<open>detected_objects\<close> itself is returned.
\<close>

definition update_deepsort_tracking ::
  "(string \<rightharpoonup> 'f deepsort) \<Rightarrow> 'f \<Rightarrow> detected_object list \<Rightarrow> string \<Rightarrow>
   detected_object list \<times> nat list" where
  "update_deepsort_tracking trackers frm detected_objects cam =
     (case trackers cam of
        None \<Rightarrow> (detected_objects, [0 ..< length detected_objects])
      | Some update_tracks \<Rightarrow>
          let detections = map (\<lambda>obj. (bbox obj, confidence obj, class_name obj)) detected_objects
          in case update_tracks detections frm of
               Inl e \<Rightarrow> (detected_objects, [0 ..< length detected_objects])
             | Inr tracks \<Rightarrow>
                 (case tracks_loop tracks detected_objects [] of
                    (store, Inl e) \<Rightarrow> (store, [0 ..< length store])
                  | (store, Inr tracked_objects) \<Rightarrow> (store, tracked_objects)))"

section \<open>object\_tracker.py: positions and the tracking cycle\<close>

text \<open>
  The search for the best match of \<open>obj1\<close> among the objects of the second camera in
  \<open>_calculate_3d_positions\<close>. The float literal \<open>0.3\<close> is the rational \<open>3/10\<close>.
\<close>

fun match_loop ::
  "detected_object \<Rightarrow> detected_object list \<Rightarrow> detected_object option \<Rightarrow> rat \<Rightarrow>
   py_error + detected_object option" where
  "match_loop obj1 [] best_match best_similarity = Inr best_match"
| "match_loop obj1 (obj2 # rest) best_match best_similarity =
     (if class_name obj1 = class_name obj2 then
        let center1 = get_center obj1;
            center2 = get_center obj2;
            y_diff = \<bar>snd center1 - snd center2\<bar>
        in case py_truediv (of_int y_diff) (of_int FRAME_HEIGHT) of
             Inl e \<Rightarrow> Inl e
           | Inr q \<Rightarrow>
               (case py_truediv 1 (1 + q) of
                  Inl e \<Rightarrow> Inl e
                | Inr similarity \<Rightarrow>
                    if similarity > best_similarity \<and> similarity > 3 / 10
                    then match_loop obj1 rest (Some obj2) similarity
                    else match_loop obj1 rest best_match best_similarity)
      else match_loop obj1 rest best_match best_similarity)"

text \<open>
  The first loop of \<open>_calculate_3d_positions\<close>, over the references of the first camera;
  \<open>objects2\<close> are the objects of the second camera, which this loop only reads.
\<close>

fun positions_loop1 ::
  "nat list \<Rightarrow> detected_object list \<Rightarrow> detected_object list \<Rightarrow> py_error + detected_object list" where
  "positions_loop1 [] objects2 store1 = Inr store1"
| "positions_loop1 (i # refs) objects2 store1 =
     (let obj1 = store1 ! i in
      case match_loop obj1 objects2 None 0 of
        Inl e \<Rightarrow> Inl e
      | Inr best_match \<Rightarrow>
          let pos_3d = (case best_match of
                          Some obj2 \<Rightarrow> triangulate_position obj1 obj2
                        | None \<Rightarrow> estimate_single_camera_position obj1 ''camera1'')
          in positions_loop1 refs objects2
               (case pos_3d of
                  None \<Rightarrow> store1
                | Some p \<Rightarrow> store1[i := obj1\<lparr>position_3d := Some p\<rparr>]))"

text \<open>The second loop, over the references of the second camera.\<close>

fun positions_loop2 :: "nat list \<Rightarrow> detected_object list \<Rightarrow> detected_object list" where
  "positions_loop2 [] store2 = store2"
| "positions_loop2 (j # refs) store2 =
     (let obj2 = store2 ! j in
      if position_3d obj2 = None then
        (case estimate_single_camera_position obj2 ''camera2'' of
           None \<Rightarrow> positions_loop2 refs store2
         | Some p \<Rightarrow> positions_loop2 refs (store2[j := obj2\<lparr>position_3d := Some p\<rparr>]))
      else positions_loop2 refs store2)"

definition calculate_3d_positions ::
  "detected_object list \<times> nat list \<Rightarrow> detected_object list \<times> nat list \<Rightarrow>
   py_error + detected_object list \<times> detected_object list" where
  "calculate_3d_positions objects1 objects2 =
     (case objects1 of (store1, refs1) \<Rightarrow>
      case objects2 of (store2, refs2) \<Rightarrow>
        case positions_loop1 refs1 (deref (store2, refs2)) store1 of
          Inl e \<Rightarrow> Inl e
        | Inr store1' \<Rightarrow> Inr (store1', positions_loop2 refs2 store2))"

text \<open>
  \<open>ObjectTracker.track_objects\<close>: the pair of the lists returned under \<open>"camera1"\<close> and
  \<open>"camera2"\<close>. The method has no \<open>try\<close> block of its own, so an exception of
  \<open>_calculate_3d_positions\<close> would leave it.
\<close>

definition track_objects ::
  "'f yolo_model option \<Rightarrow> (string \<rightharpoonup> 'f deepsort) \<Rightarrow> 'f option \<Rightarrow> 'f option \<Rightarrow>
   py_error + detected_object list \<times> detected_object list" where
  "track_objects yolo trackers frame1 frame2 =
     (let tracked_objects1 =
            (case frame1 of
               None \<Rightarrow> ([], [])
             | Some f \<Rightarrow>
                 update_deepsort_tracking trackers f (detect_objects yolo f ''camera1'') ''camera1'');
          tracked_objects2 =
            (case frame2 of
               None \<Rightarrow> ([], [])
             | Some f \<Rightarrow>
                 update_deepsort_tracking trackers f (detect_objects yolo f ''camera2'') ''camera2'')
      in if snd tracked_objects1 \<noteq> [] \<and> snd tracked_objects2 \<noteq> [] then
           (case calculate_3d_positions tracked_objects1 tracked_objects2 of
              Inl e \<Rightarrow> Inl e
            | Inr (store1, store2) \<Rightarrow>
                Inr (deref (store1, snd tracked_objects1), deref (store2, snd tracked_objects2)))
         else Inr (deref tracked_objects1, deref tracked_objects2))"








definition raising_tracker :: "unit deepsort" where
  "raising_tracker = (\<lambda>detections frm. Inl TrackerError)"

definition failing_trackers :: "string \<rightharpoonup> unit deepsort" where
  "failing_trackers = [''camera1'' \<mapsto> raising_tracker, ''camera2'' \<mapsto> raising_tracker]"

definition raising_yolo :: "unit yolo_model" where
  "raising_yolo = \<lparr>names = Map.empty, predict = (\<lambda>f. Inl DetectorError)\<rparr>"

text \<open>An object without its position, to compare objects up to \<open>position_3d\<close>.\<close>

definition without_position :: "detected_object \<Rightarrow> detected_object" where
  "without_position obj = obj\<lparr>position_3d := None\<rparr>"

definition detections_of :: "detected_object list \<Rightarrow> (bbox \<times> rat \<times> string) list" where
  "detections_of detected_objects =
     map (\<lambda>obj. (bbox obj, confidence obj, class_name obj)) detected_objects"




section \<open>Properties of IoU\<close>

lemma box_pixels_Int:
  "box_pixels (x1, y1, w1, h1) \<inter> box_pixels (x2, y2, w2, h2) =
     {max x1 x2 ..< min (x1 + w1) (x2 + w2)} \<times> {max y1 y2 ..< min (y1 + h1) (y2 + h2)}"
  by (auto simp: box_pixels_def)

lemma intersection_area_eq:
  "intersection_area (x1, y1, w1, h1) (x2, y2, w2, h2) =
     nat (min (x1 + w1) (x2 + w2) - max x1 x2) * nat (min (y1 + h1) (y2 + h2) - max y1 y2)"
  unfolding intersection_area_def box_pixels_Int by (simp add: card_cartesian_product)

lemma boxes_disjoint_iff:
  "boxes_disjoint (x1, y1, w1, h1) (x2, y2, w2, h2) \<longleftrightarrow>
     \<not> (max x1 x2 < min (x1 + w1) (x2 + w2) \<and> max y1 y2 < min (y1 + h1) (y2 + h2))"
  unfolding boxes_disjoint_def box_pixels_Int by (auto simp: Sigma_empty_iff)

lemma iou_unfold:
  "calculate_iou (x1, y1, w1, h1) (x2, y2, w2, h2) =
     (if min (x1 + w1) (x2 + w2) < max x1 x2 \<or> min (y1 + h1) (y2 + h2) < max y1 y2 then Inr 0
      else if 0 < w1 * h1 + w2 * h2 - (min (x1 + w1) (x2 + w2) - max x1 x2) * (min (y1 + h1) (y2 + h2) - max y1 y2)
      then Inr (of_int ((min (x1 + w1) (x2 + w2) - max x1 x2) * (min (y1 + h1) (y2 + h2) - max y1 y2)) /
                of_int (w1 * h1 + w2 * h2 - (min (x1 + w1) (x2 + w2) - max x1 x2) * (min (y1 + h1) (y2 + h2) - max y1 y2)))
      else Inr 0)"
  unfolding calculate_iou_def Let_def py_truediv_def prod.case
  by (simp only: of_int_eq_0_iff if_False split: if_splits) auto

lemma inter_int:
  assumes "\<not> (min (x1 + w1) (x2 + w2) < max x1 x2 \<or> min (y1 + h1) (y2 + h2) < max y1 y2)"
  shows "int (intersection_area (x1, y1, w1, h1) (x2, y2, w2, h2)) =
     (min (x1 + w1) (x2 + w2) - max x1 x2) * (min (y1 + h1) (y2 + h2) - max y1 y2)"
proof -
  define iw where "iw = min (x1 + w1) (x2 + w2) - max x1 x2"
  define ih where "ih = min (y1 + h1) (y2 + h2) - max y1 y2"
  have "0 \<le> iw" "0 \<le> ih" using assms by (simp_all add: iw_def ih_def not_less)
  then have "int (nat iw * nat ih) = iw * ih" by simp
  then show ?thesis unfolding intersection_area_eq iw_def ih_def .
qed

lemma iou_early:
  assumes "min (x1 + w1) (x2 + w2) < max x1 x2 \<or> min (y1 + h1) (y2 + h2) < max y1 y2"
  shows "calculate_iou (x1, y1, w1, h1) (x2, y2, w2, h2) = Inr 0"
  using assms by (simp only: iou_unfold if_True)

lemma inter_zero:
  assumes "\<not> (max x1 x2 < min (x1 + w1) (x2 + w2) \<and> max y1 y2 < min (y1 + h1) (y2 + h2))"
  shows "intersection_area (x1, y1, w1, h1) (x2, y2, w2, h2) = 0"
proof -
  define iw where "iw = min (x1 + w1) (x2 + w2) - max x1 x2"
  define ih where "ih = min (y1 + h1) (y2 + h2) - max y1 y2"
  have "iw \<le> 0 \<or> ih \<le> 0" using assms by (auto simp: iw_def ih_def not_less)
  then have "nat iw * nat ih = 0" by auto
  then show ?thesis unfolding intersection_area_eq iw_def ih_def .
qed

lemma iou_no_early:
  assumes "\<not> (min (x1 + w1) (x2 + w2) < max x1 x2 \<or> min (y1 + h1) (y2 + h2) < max y1 y2)"
  shows "calculate_iou (x1, y1, w1, h1) (x2, y2, w2, h2) =
     (if 0 < w1 * h1 + w2 * h2 - int (intersection_area (x1, y1, w1, h1) (x2, y2, w2, h2))
      then Inr (of_int (int (intersection_area (x1, y1, w1, h1) (x2, y2, w2, h2))) /
                of_int (w1 * h1 + w2 * h2 - int (intersection_area (x1, y1, w1, h1) (x2, y2, w2, h2))))
      else Inr 0)"
  unfolding inter_int[OF assms] using assms by (simp only: iou_unfold if_False)

lemma inter_le_area:
  "int (intersection_area (x1, y1, w1, h1) (x2, y2, w2, h2)) \<le> max 0 (w1 * h1)"
proof (cases "max x1 x2 < min (x1 + w1) (x2 + w2) \<and> max y1 y2 < min (y1 + h1) (y2 + h2)")
  case True
  let ?iw = "min (x1 + w1) (x2 + w2) - max x1 x2" and ?ih = "min (y1 + h1) (y2 + h2) - max y1 y2"
  have "0 \<le> ?iw" "?iw \<le> w1" "0 \<le> ?ih" "?ih \<le> h1" using True by auto
  then have "?iw * ?ih \<le> w1 * h1" by (intro mult_mono) auto
  moreover have "int (intersection_area (x1, y1, w1, h1) (x2, y2, w2, h2)) = ?iw * ?ih"
    using True by (intro inter_int) auto
  ultimately show ?thesis by simp
next
  case False
  then have "intersection_area (x1, y1, w1, h1) (x2, y2, w2, h2) = 0"
    by (rule inter_zero)
  then show ?thesis by simp
qed

lemma iou_self:
  assumes "0 < w" "0 < h"
  shows "calculate_iou (x, y, w, h) (x, y, w, h) = Inr 1"
proof -
  have "0 < w * h" using assms by simp
  then show ?thesis using assms by (auto simp: iou_unfold)
qed

lemma iou_sym: "calculate_iou a b = calculate_iou b a"
proof -
  obtain x1 y1 w1 h1 x2 y2 w2 h2 where ab: "a = (x1, y1, w1, h1)" "b = (x2, y2, w2, h2)"
    by (metis prod_cases4)
  show ?thesis unfolding ab iou_unfold
    by (simp only: min.commute [of "x1 + w1"] max.commute [of x1] min.commute [of "y1 + h1"]
        max.commute [of y1] add.commute [of "w1 * h1"])
qed

lemma iou_disjoint:
  assumes "boxes_disjoint a b"
  shows "calculate_iou a b = Inr 0"
proof -
  obtain x1 y1 w1 h1 x2 y2 w2 h2 where ab: "a = (x1, y1, w1, h1)" "b = (x2, y2, w2, h2)"
    by (metis prod_cases4)
  have d: "\<not> (max x1 x2 < min (x1 + w1) (x2 + w2) \<and> max y1 y2 < min (y1 + h1) (y2 + h2))"
    using assms unfolding ab boxes_disjoint_iff .
  show ?thesis
  proof (cases "min (x1 + w1) (x2 + w2) < max x1 x2 \<or> min (y1 + h1) (y2 + h2) < max y1 y2")
    case True
    then show ?thesis unfolding ab by (rule iou_early)
  next
    case False
    have "intersection_area (x1, y1, w1, h1) (x2, y2, w2, h2) = 0"
      using d by (rule inter_zero)
    then show ?thesis unfolding ab iou_no_early [OF False] by simp
  qed
qed

lemma iou_overlap:
  assumes "\<not> boxes_disjoint a b"
  shows "0 < box_area a + box_area b - int (intersection_area a b)"
    and "calculate_iou a b =
           Inr (of_int (int (intersection_area a b)) /
                of_int (box_area a + box_area b - int (intersection_area a b)))"
proof -
  obtain x1 y1 w1 h1 x2 y2 w2 h2 where ab: "a = (x1, y1, w1, h1)" "b = (x2, y2, w2, h2)"
    by (metis prod_cases4)
  have o: "max x1 x2 < min (x1 + w1) (x2 + w2)" "max y1 y2 < min (y1 + h1) (y2 + h2)"
    using assms unfolding ab boxes_disjoint_iff by simp_all
  then have ne: "\<not> (min (x1 + w1) (x2 + w2) < max x1 x2 \<or> min (y1 + h1) (y2 + h2) < max y1 y2)"
    by auto
  have pos: "0 < w1" "0 < h1" using o by auto
  then have a1: "0 < w1 * h1" by simp
  have "int (intersection_area (x1, y1, w1, h1) (x2, y2, w2, h2)) \<le> max 0 (w2 * h2)"
    using inter_le_area [of x2 y2 w2 h2 x1 y1 w1 h1]
    by (simp add: intersection_area_def Int_commute)
  moreover have "0 < w2" "0 < h2" using o by auto
  then have "0 < w2 * h2" by simp
  ultimately have u: "0 < w1 * h1 + w2 * h2 - int (intersection_area (x1, y1, w1, h1) (x2, y2, w2, h2))"
    using a1 by simp
  show "0 < box_area a + box_area b - int (intersection_area a b)"
    using u by (simp add: ab box_area_def)
  show "calculate_iou a b =
           Inr (of_int (int (intersection_area a b)) /
                of_int (box_area a + box_area b - int (intersection_area a b)))"
    unfolding ab iou_no_early [OF ne] using u by (simp add: box_area_def)
qed

lemma iou_bounds:
  "\<exists>r. calculate_iou a b = Inr r \<and> 0 \<le> r \<and> r \<le> 1"
proof -
  obtain x1 y1 w1 h1 x2 y2 w2 h2 where ab: "a = (x1, y1, w1, h1)" "b = (x2, y2, w2, h2)"
    by (metis prod_cases4)
  show ?thesis
  proof (cases "min (x1 + w1) (x2 + w2) < max x1 x2 \<or> min (y1 + h1) (y2 + h2) < max y1 y2")
    case True
    then show ?thesis unfolding ab by (simp add: iou_early)
  next
    case False
    define i where "i = int (intersection_area (x1, y1, w1, h1) (x2, y2, w2, h2))"
    have w: "0 \<le> w1" "0 \<le> h1" "0 \<le> w2" "0 \<le> h2" using False by auto
    have "i \<le> max 0 (w1 * h1)" unfolding i_def by (rule inter_le_area)
    then have i1: "i \<le> w1 * h1" using w by simp
    have "i \<le> max 0 (w2 * h2)"
      using inter_le_area [of x2 y2 w2 h2 x1 y1 w1 h1]
      by (simp add: i_def intersection_area_def Int_commute)
    then have "i \<le> w2 * h2" using w by simp
    then have iu: "i \<le> w1 * h1 + w2 * h2 - i" using i1 by simp
    have i0: "0 \<le> i" by (simp add: i_def)
    define u where "u = w1 * h1 + w2 * h2 - i"
    have eq: "calculate_iou a b = (if 0 < u then Inr (of_int i / of_int u) else Inr 0)"
      unfolding ab iou_no_early [OF False] i_def u_def ..
    show ?thesis
    proof (cases "0 < u")
      case True
      have "(0::rat) \<le> of_int i / of_int u"
        using i0 True by (intro divide_nonneg_pos) simp_all
      moreover have "(of_int i :: rat) / of_int u \<le> 1"
        using iu True unfolding u_def [symmetric] by (subst divide_le_eq_1_pos) simp_all
      ultimately show ?thesis using True eq by simp
    next
      case F: False
      then show ?thesis using eq by simp
    qed
  qed
qed

lemma iou_nonpos_union:
  assumes "box_area a + box_area b - int (intersection_area a b) \<le> 0"
  shows "calculate_iou a b = Inr 0"
proof -
  obtain x1 y1 w1 h1 x2 y2 w2 h2 where ab: "a = (x1, y1, w1, h1)" "b = (x2, y2, w2, h2)"
    by (metis prod_cases4)
  show ?thesis
  proof (cases "min (x1 + w1) (x2 + w2) < max x1 x2 \<or> min (y1 + h1) (y2 + h2) < max y1 y2")
    case True
    then show ?thesis unfolding ab by (rule iou_early)
  next
    case False
    show ?thesis unfolding ab iou_no_early [OF False] using assms by (simp add: ab box_area_def)
  qed
qed

text \<open>
  Claim C5. For boxes \<open>(x, y, width, height)\<close>: the IoU of a box with positive width and
  height with itself is 1; the IoU of two boxes that share no pixel is 0; IoU is symmetric;
  and when the boxes overlap, the union is positive and the result is the number of shared
  pixels divided by the sum of the two areas minus the number of shared pixels.
\<close>

theorem iou_properties:
  fixes x y w h :: int and a b :: bbox
  shows "(0 < w \<and> 0 < h \<longrightarrow> calculate_iou (x, y, w, h) (x, y, w, h) = Inr 1) \<and>
         (boxes_disjoint a b \<longrightarrow> calculate_iou a b = Inr 0) \<and>
         calculate_iou a b = calculate_iou b a \<and>
         (\<not> boxes_disjoint a b \<longrightarrow>
            0 < box_area a + box_area b - int (intersection_area a b) \<and>
            calculate_iou a b =
              Inr (of_int (int (intersection_area a b)) /
                   of_int (box_area a + box_area b - int (intersection_area a b))))"
  using iou_self [of w h x y] iou_disjoint [of a b] iou_sym [of a b] iou_overlap [of a b]
  by blast

theorem iou_properties_witness:
  "calculate_iou (3, 4, 10, 20) (3, 4, 10, 20) = Inr 1 \<and>
   boxes_disjoint (0, 0, 10, 10) (20, 0, 10, 10) \<and>
   calculate_iou (0, 0, 10, 10) (20, 0, 10, 10) = Inr 0 \<and>
   \<not> boxes_disjoint (0, 0, 10, 10) (5, 5, 10, 10) \<and>
   calculate_iou (0, 0, 10, 10) (5, 5, 10, 10) = Inr (1 / 7)"
proof -
  have d: "boxes_disjoint (0, 0, 10, 10) (20, 0, 10, 10)"
    by (simp add: boxes_disjoint_iff)
  have o: "\<not> boxes_disjoint (0, 0, 10, 10) (5, 5, 10, 10)"
    by (simp add: boxes_disjoint_iff)
  have i: "intersection_area (0, 0, 10, 10) (5, 5, 10, 10) = 25"
    by (simp add: intersection_area_eq)
  have p: "(0::int) < 10 \<and> (0::int) < 20" by simp
  have s: "calculate_iou (3, 4, 10, 20) (3, 4, 10, 20) = Inr 1"
    using p iou_properties [where x = 3 and y = 4 and w = 10 and h = 20
        and a = "(0, 0, 10, 10)" and b = "(20, 0, 10, 10)"]
    by blast
  have z: "calculate_iou (0, 0, 10, 10) (20, 0, 10, 10) = Inr 0"
    using d iou_properties [where x = 3 and y = 4 and w = 10 and h = 20
        and a = "(0, 0, 10, 10)" and b = "(20, 0, 10, 10)"]
    by blast
  have "calculate_iou (0, 0, 10, 10) (5, 5, 10, 10) =
      Inr (of_int (int (intersection_area (0, 0, 10, 10) (5, 5, 10, 10))) /
           of_int (box_area (0, 0, 10, 10) + box_area (5, 5, 10, 10) -
                   int (intersection_area (0, 0, 10, 10) (5, 5, 10, 10))))"
    using o iou_properties [where x = 3 and y = 4 and w = 10 and h = 20
        and a = "(0, 0, 10, 10)" and b = "(5, 5, 10, 10)"]
    by blast
  then have v: "calculate_iou (0, 0, 10, 10) (5, 5, 10, 10) = Inr (1 / 7)"
    by (simp add: i box_area_def)
  show ?thesis using d o s z v by blast
qed

text \<open>
  Claim C9. The IoU computation never raises: it returns a value for all integer boxes.
  When the union (sum of the areas minus the shared area) is zero or negative the result
  is 0, and for boxes with non-negative widths and heights the result lies in \<open>[0, 1]\<close>.
\<close>

theorem iou_total_and_bounded:
  fixes a b :: bbox and x1 y1 w1 h1 x2 y2 w2 h2 :: int
  shows "(\<exists>r. calculate_iou a b = Inr r) \<and>
         (box_area a + box_area b - int (intersection_area a b) \<le> 0 \<longrightarrow>
            calculate_iou a b = Inr 0) \<and>
         (0 \<le> w1 \<and> 0 \<le> h1 \<and> 0 \<le> w2 \<and> 0 \<le> h2 \<longrightarrow>
            (\<exists>r. calculate_iou (x1, y1, w1, h1) (x2, y2, w2, h2) = Inr r \<and> 0 \<le> r \<and> r \<le> 1))"
  using iou_bounds [of a b] iou_nonpos_union [of a b]
    iou_bounds [of "(x1, y1, w1, h1)" "(x2, y2, w2, h2)"]
  by blast

theorem iou_total_and_bounded_witness:
  "box_area (7, 7, 0, 5) + box_area (7, 7, 0, 0) - int (intersection_area (7, 7, 0, 5) (7, 7, 0, 0)) \<le> 0 \<and>
   calculate_iou (7, 7, 0, 5) (7, 7, 0, 0) = Inr 0 \<and>
   (\<exists>r. calculate_iou (0, 0, 10, 10) (5, 5, 10, 10) = Inr r \<and> 0 \<le> r \<and> r \<le> 1)"
proof -
  have u: "box_area (7, 7, 0, 5) + box_area (7, 7, 0, 0) -
      int (intersection_area (7, 7, 0, 5) (7, 7, 0, 0)) \<le> 0"
    by (simp add: box_area_def intersection_area_eq)
  have n: "(0::int) \<le> 10 \<and> (0::int) \<le> 10 \<and> (0::int) \<le> 10 \<and> (0::int) \<le> 10" by simp
  show ?thesis
    using u n
      iou_total_and_bounded [where a = "(7, 7, 0, 5)" and b = "(7, 7, 0, 0)"
        and ?x1.0 = 0 and ?y1.0 = 0 and ?w1.0 = 10 and ?h1.0 = 10
        and ?x2.0 = 5 and ?y2.0 = 5 and ?w2.0 = 10 and ?h2.0 = 10]
    by blast
qed

section \<open>Properties of the position estimates\<close>

lemma estimated_depth_eq:
  "estimated_depth area = Inr (1 + 9 * (1 - max (1 / 10) (min 1 (of_int area / 30720))))"
  by (simp add: estimated_depth_def py_truediv_def FRAME_WIDTH_def FRAME_HEIGHT_def)

lemma estimated_depth_range:
  "\<exists>d. estimated_depth area = Inr d \<and> 1 \<le> d \<and> d \<le> 10"
  unfolding estimated_depth_eq by (simp add: max_def min_def)

lemma estimated_depth_mono:
  assumes "a1 \<le> a2"
  shows "\<exists>d1 d2. estimated_depth a1 = Inr d1 \<and> estimated_depth a2 = Inr d2 \<and> d2 \<le> d1"
proof -
  have "(of_int a1 :: rat) / 30720 \<le> of_int a2 / 30720"
    using assms by (simp add: divide_right_mono)
  then have "max (1 / 10) (min 1 (of_int a1 / 30720 :: rat)) \<le>
             max (1 / 10) (min 1 (of_int a2 / 30720))"
    by (intro max.mono min.mono) simp_all
  then show ?thesis unfolding estimated_depth_eq by simp
qed

lemma estimate_eq:
  "estimate_single_camera_position obj cam =
     (case estimated_depth (get_area obj) of Inl e \<Rightarrow> None
      | Inr d \<Rightarrow>
          Some ((if cam = ''camera1''
                 then - CAMERA_DISTANCE / 2 + normalized_x (fst (get_center obj)) * d
                 else CAMERA_DISTANCE / 2 + normalized_x (fst (get_center obj)) * d),
                normalized_y (snd (get_center obj)) * d, d))"
  by (simp add: estimate_single_camera_position_def estimate_body_def py_truediv_def Let_def
      normalized_x_def normalized_y_def FRAME_WIDTH_def FRAME_HEIGHT_def split: sum.splits)

lemma estimate_depth_of:
  "\<exists>x y z. estimate_single_camera_position obj cam = Some (x, y, z) \<and>
     estimated_depth (get_area obj) = Inr z"
  unfolding estimate_eq estimated_depth_eq by simp

lemma triangulate_eq:
  "triangulate_position obj1 obj2 =
    (let x1 = normalized_x (fst (get_center obj1)); y1 = normalized_y (snd (get_center obj1));
         x2 = normalized_x (fst (get_center obj2)); y2 = normalized_y (snd (get_center obj2));
         disparity = \<bar>x1 - x2\<bar>
     in if disparity < 1 / 100 then None
        else Some ((x1 + x2) * (CAMERA_DISTANCE / disparity) / 2,
                   (y1 + y2) * (CAMERA_DISTANCE / disparity) / 2,
                   CAMERA_DISTANCE / disparity))"
proof -
  have w: "rat_of_int (FRAME_WIDTH div 2) \<noteq> 0" "rat_of_int (FRAME_HEIGHT div 2) \<noteq> 0"
    by (simp_all add: FRAME_WIDTH_def FRAME_HEIGHT_def)
  show ?thesis
    unfolding triangulate_position_def triangulate_body_def Let_def py_truediv_def
      normalized_x_def normalized_y_def
    using w by (auto simp: Let_def)
qed

lemma normalized_bounds:
  assumes "center_in_frame c"
  shows "\<bar>normalized_x (fst c)\<bar> \<le> 1" and "\<bar>normalized_y (snd c)\<bar> \<le> 1"
proof -
  have "\<bar>fst c - 320\<bar> \<le> 320" "\<bar>snd c - 240\<bar> \<le> 240"
    using assms by (auto simp: center_in_frame_def FRAME_WIDTH_def FRAME_HEIGHT_def)
  then have "\<bar>rat_of_int (fst c - 320)\<bar> \<le> 320" "\<bar>rat_of_int (snd c - 240)\<bar> \<le> 240"
    by (metis of_int_abs of_int_le_iff of_int_numeral)+
  then show "\<bar>normalized_x (fst c)\<bar> \<le> 1" and "\<bar>normalized_y (snd c)\<bar> \<le> 1"
    by (simp_all add: normalized_x_def normalized_y_def FRAME_WIDTH_def FRAME_HEIGHT_def
        del: of_int_diff)
qed

lemma scaled_midpoint_bound:
  fixes u v d :: rat
  assumes "\<bar>u\<bar> \<le> 1" "\<bar>v\<bar> \<le> 1" "0 < d" "d \<le> 50"
  shows "\<bar>(u + v) * d / 2\<bar> \<le> 50"
proof -
  have "\<bar>u + v\<bar> \<le> 2" using assms by linarith
  then have "\<bar>u + v\<bar> * d \<le> 2 * 50"
    using assms by (intro mult_mono) simp_all
  then show ?thesis using assms by (simp add: abs_mult)
qed

lemma depth_bound:
  fixes disparity :: rat
  assumes "\<not> disparity < 1 / 100"
  shows "0 < CAMERA_DISTANCE / disparity" and "CAMERA_DISTANCE / disparity \<le> 50"
proof -
  have p: "0 < disparity" "1 / 100 \<le> disparity" using assms by simp_all
  show "0 < CAMERA_DISTANCE / disparity" using p by (simp add: CAMERA_DISTANCE_def)
  have "1 / 2 \<le> 50 * disparity" using p by simp
  then show "CAMERA_DISTANCE / disparity \<le> 50"
    using p by (simp add: CAMERA_DISTANCE_def pos_divide_le_eq)
qed

text \<open>
  Claim C1. With \<open>x1, y1, x2, y2\<close> the normalized coordinates of the two centres and
  disparity \<open>|x1 - x2|\<close>: the triangulation returns \<open>None\<close> when the disparity is below 0.01,
  and otherwise the triple with \<open>z = CAMERA_DISTANCE / disparity\<close>, \<open>x = (x1 + x2) * z / 2\<close>
  and \<open>y = (y1 + y2) * z / 2\<close>. For centres inside the frame the normalized coordinates lie
  in \<open>[-1, 1]\<close> and the triple is bounded: \<open>0 < z \<le> 50\<close>, \<open>|x| \<le> 50\<close>, \<open>|y| \<le> 50\<close>.
\<close>

theorem triangulate_position_spec:
  "(let x1 = normalized_x (fst (get_center obj1)); y1 = normalized_y (snd (get_center obj1));
        x2 = normalized_x (fst (get_center obj2)); y2 = normalized_y (snd (get_center obj2));
        disparity = \<bar>x1 - x2\<bar>;
        z = CAMERA_DISTANCE / disparity
    in (disparity < 1 / 100 \<longrightarrow> triangulate_position obj1 obj2 = None) \<and>
       (\<not> disparity < 1 / 100 \<longrightarrow>
          triangulate_position obj1 obj2 = Some ((x1 + x2) * z / 2, (y1 + y2) * z / 2, z)) \<and>
       (center_in_frame (get_center obj1) \<and> center_in_frame (get_center obj2) \<longrightarrow>
          \<bar>x1\<bar> \<le> 1 \<and> \<bar>y1\<bar> \<le> 1 \<and> \<bar>x2\<bar> \<le> 1 \<and> \<bar>y2\<bar> \<le> 1 \<and>
          (\<not> disparity < 1 / 100 \<longrightarrow>
             0 < z \<and> z \<le> 50 \<and> \<bar>(x1 + x2) * z / 2\<bar> \<le> 50 \<and> \<bar>(y1 + y2) * z / 2\<bar> \<le> 50)))"
  unfolding Let_def
proof (intro conjI impI)
  assume "\<bar>normalized_x (fst (get_center obj1)) - normalized_x (fst (get_center obj2))\<bar> < 1 / 100"
  then show "triangulate_position obj1 obj2 = None"
    by (simp add: triangulate_eq Let_def)
next
  assume "\<not> \<bar>normalized_x (fst (get_center obj1)) - normalized_x (fst (get_center obj2))\<bar> < 1 / 100"
  then show "triangulate_position obj1 obj2 =
    Some ((normalized_x (fst (get_center obj1)) + normalized_x (fst (get_center obj2))) *
          (CAMERA_DISTANCE /
           \<bar>normalized_x (fst (get_center obj1)) - normalized_x (fst (get_center obj2))\<bar>) / 2,
          (normalized_y (snd (get_center obj1)) + normalized_y (snd (get_center obj2))) *
          (CAMERA_DISTANCE /
           \<bar>normalized_x (fst (get_center obj1)) - normalized_x (fst (get_center obj2))\<bar>) / 2,
          CAMERA_DISTANCE /
          \<bar>normalized_x (fst (get_center obj1)) - normalized_x (fst (get_center obj2))\<bar>)"
    by (simp add: triangulate_eq Let_def)
qed (blast intro: normalized_bounds depth_bound scaled_midpoint_bound)+

theorem triangulate_position_spec_witness:
  "triangulate_position (DetectedObject (100, 100, 50, 50) 1 2 ''car'' ''camera1'')
     (DetectedObject (103, 100, 50, 50) 1 2 ''car'' ''camera2'') = None \<and>
   center_in_frame (get_center (DetectedObject (100, 100, 50, 50) 1 2 ''car'' ''camera1'')) \<and>
   center_in_frame (get_center (DetectedObject (200, 100, 50, 50) 1 2 ''car'' ''camera2'')) \<and>
   triangulate_position (DetectedObject (100, 100, 50, 50) 1 2 ''car'' ''camera1'')
     (DetectedObject (200, 100, 50, 50) 1 2 ''car'' ''camera2'') =
     Some (- (29 / 40), - (23 / 30), 8 / 5)"
proof -
  have c: "get_center (DetectedObject (100, 100, 50, 50) 1 2 ''car'' ''camera1'') = (125, 125)"
    "get_center (DetectedObject (103, 100, 50, 50) 1 2 ''car'' ''camera2'') = (128, 125)"
    "get_center (DetectedObject (200, 100, 50, 50) 1 2 ''car'' ''camera2'') = (225, 125)"
    by (simp_all add: get_center_def DetectedObject_def)
  have n: "normalized_x 125 = - (39 / 64)" "normalized_x 128 = - (3 / 5)"
    "normalized_x 225 = - (19 / 64)" "normalized_y 125 = - (23 / 48)"
    by (simp_all add: normalized_x_def normalized_y_def FRAME_WIDTH_def FRAME_HEIGHT_def)
  have f: "center_in_frame (125, 125)" "center_in_frame (225, 125)"
    by (simp_all add: center_in_frame_def FRAME_WIDTH_def FRAME_HEIGHT_def)
  have near: "triangulate_position (DetectedObject (100, 100, 50, 50) 1 2 ''car'' ''camera1'')
     (DetectedObject (103, 100, 50, 50) 1 2 ''car'' ''camera2'') = None"
    using triangulate_position_spec
      [of "DetectedObject (100, 100, 50, 50) 1 2 ''car'' ''camera1''"
          "DetectedObject (103, 100, 50, 50) 1 2 ''car'' ''camera2''"]
    by (simp add: Let_def c n)
  have far: "triangulate_position (DetectedObject (100, 100, 50, 50) 1 2 ''car'' ''camera1'')
     (DetectedObject (200, 100, 50, 50) 1 2 ''car'' ''camera2'') =
     Some (- (29 / 40), - (23 / 30), 8 / 5)"
    using triangulate_position_spec
      [of "DetectedObject (100, 100, 50, 50) 1 2 ''car'' ''camera1''"
          "DetectedObject (200, 100, 50, 50) 1 2 ''car'' ''camera2''"]
    by (simp add: Let_def c n f CAMERA_DISTANCE_def)
  show ?thesis using near far f by (simp add: c)
qed

text \<open>
  Claim C6. The monocular estimate always returns a position whose depth lies in
  \<open>[1, 10]\<close>, and an object of larger or equal bounding-box area gets a depth that is
  less than or equal to that of the smaller one (whatever the centres and the camera).
\<close>

theorem monocular_depth_monotone_bounded:
  "(\<exists>x y z. estimate_single_camera_position obj cam = Some (x, y, z) \<and> 1 \<le> z \<and> z \<le> 10) \<and>
   (get_area o1 \<le> get_area o2 \<longrightarrow>
      (\<exists>x1 y1 z1 x2 y2 z2.
         estimate_single_camera_position o1 cam1 = Some (x1, y1, z1) \<and>
         estimate_single_camera_position o2 cam2 = Some (x2, y2, z2) \<and> z2 \<le> z1))"
proof (intro conjI impI)
  show "\<exists>x y z. estimate_single_camera_position obj cam = Some (x, y, z) \<and> 1 \<le> z \<and> z \<le> 10"
    using estimate_depth_of [of obj cam] estimated_depth_range [of "get_area obj"] by auto
next
  assume "get_area o1 \<le> get_area o2"
  then obtain d1 d2 where d: "estimated_depth (get_area o1) = Inr d1"
    "estimated_depth (get_area o2) = Inr d2" "d2 \<le> d1"
    using estimated_depth_mono by blast
  then show "\<exists>x1 y1 z1 x2 y2 z2.
         estimate_single_camera_position o1 cam1 = Some (x1, y1, z1) \<and>
         estimate_single_camera_position o2 cam2 = Some (x2, y2, z2) \<and> z2 \<le> z1"
    using estimate_depth_of [of o1 cam1] estimate_depth_of [of o2 cam2] by auto
qed

theorem monocular_depth_monotone_bounded_witness:
  "get_area (DetectedObject (100, 100, 50, 50) 1 2 ''car'' ''camera1'') \<le>
     get_area (DetectedObject (100, 100, 100, 100) 1 2 ''car'' ''camera1'') \<and>
   (\<exists>x1 y1 z1 x2 y2 z2.
      estimate_single_camera_position (DetectedObject (100, 100, 50, 50) 1 2 ''car'' ''camera1'')
        ''camera1'' = Some (x1, y1, z1) \<and>
      estimate_single_camera_position (DetectedObject (100, 100, 100, 100) 1 2 ''car'' ''camera1'')
        ''camera1'' = Some (x2, y2, z2) \<and> z2 \<le> z1)"
proof -
  have le: "get_area (DetectedObject (100, 100, 50, 50) 1 2 ''car'' ''camera1'') \<le>
     get_area (DetectedObject (100, 100, 100, 100) 1 2 ''car'' ''camera1'')"
    by (simp add: get_area_def DetectedObject_def)
  show ?thesis
    using le monocular_depth_monotone_bounded
      [of "DetectedObject (100, 100, 50, 50) 1 2 ''car'' ''camera1''" "''camera1''"
          "DetectedObject (100, 100, 50, 50) 1 2 ''car'' ''camera1''"
          "DetectedObject (100, 100, 100, 100) 1 2 ''car'' ''camera1''" "''camera1''" "''camera1''"]
    by blast
qed

section \<open>Properties of the detection step\<close>








section \<open>Properties of the camera manager\<close>

lemma get_frames_stopped: "\<not> running m \<Longrightarrow> get_frames m = Inr (None, None)"
  by (simp add: get_frames_def)

lemma get_frames_guard_needed:
  "get_frames \<lparr>cameras = Map.empty, running = True\<rparr> = Inl KeyError"
  by (simp add: get_frames_def)

lemma initialize_cameras_failed:
  "snd (initialize_cameras m cfg1 cfg2 start) = False \<Longrightarrow>
     fst (initialize_cameras m cfg1 cfg2 start) = m"
  by (auto simp: initialize_cameras_def Let_def split: option.splits if_splits)

text \<open>
  Claim C10. When the flag \<open>running\<close> is false, \<open>get_frames\<close> returns \<open>(None, None)\<close>
  and does not raise. This covers a fresh manager, a manager whose \<open>initialize_cameras\<close>
  returned \<open>False\<close>, and a manager after \<open>stop_all\<close>, which clears the flag and empties
  the dictionary of cameras.
\<close>

theorem get_frames_not_running:
  "(\<not> running m \<longrightarrow> get_frames m = Inr (None, None)) \<and>
   get_frames (CameraManager :: 'f camera_manager) = Inr (None, None) \<and>
   (snd (initialize_cameras (CameraManager :: 'f camera_manager) cfg1 cfg2 start) = False \<longrightarrow>
      get_frames (fst (initialize_cameras (CameraManager :: 'f camera_manager) cfg1 cfg2 start)) =
        Inr (None, None)) \<and>
   \<not> running (stop_all m) \<and> cameras (stop_all m) = Map.empty \<and>
   get_frames (stop_all (m :: 'f camera_manager)) = Inr (None, None)"
proof (intro conjI impI)
  assume "snd (initialize_cameras (CameraManager :: 'f camera_manager) cfg1 cfg2 start) = False"
  then have "fst (initialize_cameras (CameraManager :: 'f camera_manager) cfg1 cfg2 start) =
      CameraManager"
    by (rule initialize_cameras_failed)
  then show "get_frames (fst (initialize_cameras (CameraManager :: 'f camera_manager) cfg1 cfg2 start)) =
      Inr (None, None)"
    by (simp add: get_frames_def CameraManager_def)
qed (simp_all add: get_frames_def CameraManager_def stop_all_def)

theorem get_frames_not_running_witness:
  "\<not> running \<lparr>cameras = [''camera1'' \<mapsto> Some ((CameraStream ''0'' ''Camera 1'' ''device'')
        \<lparr>frame := Some (7::nat)\<rparr>), ''camera2'' \<mapsto> None], running = False\<rparr> \<and>
   get_frames \<lparr>cameras = [''camera1'' \<mapsto> Some ((CameraStream ''0'' ''Camera 1'' ''device'')
        \<lparr>frame := Some (7::nat)\<rparr>), ''camera2'' \<mapsto> None], running = False\<rparr> =
     Inr (None, None) \<and>
   snd (initialize_cameras (CameraManager :: nat camera_manager)
     \<lparr>cfg_type = ''device'', cfg_device_index = ''0'', cfg_url = [], cfg_name = ''Camera 1'',
      cfg_enabled = True\<rparr>
     \<lparr>cfg_type = ''device'', cfg_device_index = ''1'', cfg_url = [], cfg_name = ''Camera 2'',
      cfg_enabled = True\<rparr> (\<lambda>s. None)) = False \<and>
   get_frames (fst (initialize_cameras (CameraManager :: nat camera_manager)
     \<lparr>cfg_type = ''device'', cfg_device_index = ''0'', cfg_url = [], cfg_name = ''Camera 1'',
      cfg_enabled = True\<rparr>
     \<lparr>cfg_type = ''device'', cfg_device_index = ''1'', cfg_url = [], cfg_name = ''Camera 2'',
      cfg_enabled = True\<rparr> (\<lambda>s. None))) = Inr (None, None)"
proof -
  let ?m = "\<lparr>cameras = [''camera1'' \<mapsto> Some ((CameraStream ''0'' ''Camera 1'' ''device'')
        \<lparr>frame := Some (7::nat)\<rparr>), ''camera2'' \<mapsto> None], running = False\<rparr>"
  let ?c1 = "\<lparr>cfg_type = ''device'', cfg_device_index = ''0'', cfg_url = [],
      cfg_name = ''Camera 1'', cfg_enabled = True\<rparr>"
  let ?c2 = "\<lparr>cfg_type = ''device'', cfg_device_index = ''1'', cfg_url = [],
      cfg_name = ''Camera 2'', cfg_enabled = True\<rparr>"
  have r: "\<not> running ?m" by simp
  have f: "snd (initialize_cameras (CameraManager :: nat camera_manager) ?c1 ?c2 (\<lambda>s. None)) = False"
    by (simp add: initialize_cameras_def)
  note t = get_frames_not_running [of ?m ?c1 ?c2 "\<lambda>s. None"]
  have "get_frames ?m = Inr (None, None)" using t r by blast
  moreover have "get_frames (fst (initialize_cameras (CameraManager :: nat camera_manager)
      ?c1 ?c2 (\<lambda>s. None))) = Inr (None, None)"
    using t f by blast
  ultimately show ?thesis using r f by blast
qed

section \<open>Properties of the acquisition loop\<close>




lemma update_loop_keeps_stopped: "stopped (fst (update_loop es ce s)) = stopped s"
proof (induction es arbitrary: ce s)
  case Nil
  then show ?case by simp
next
  case (Cons e es)
  show ?case
    by (cases e) (simp_all add: Cons.IH Let_def)
qed








section \<open>Properties of the address normalization\<close>














section \<open>Properties of the tracking cycle\<close>

lemma match_loop_total: "\<exists>r. match_loop obj1 objs best_match best_similarity = Inr r"
proof (induction objs arbitrary: best_match best_similarity)
  case Nil
  then show ?case by simp
next
  case (Cons obj2 rest)
  define y where "y = \<bar>snd (get_center obj1) - snd (get_center obj2)\<bar>"
  have q: "py_truediv (of_int y) (of_int FRAME_HEIGHT) = Inr (of_int y / 480)"
    by (simp add: py_truediv_def FRAME_HEIGHT_def)
  have "(0::rat) \<le> of_int y / 480" by (simp add: y_def)
  then have "1 + rat_of_int y / 480 \<noteq> 0" by linarith
  then have s: "py_truediv 1 (1 + of_int y / 480) = Inr (1 / (1 + of_int y / 480))"
    by (simp add: py_truediv_def)
  show ?case
  proof (cases "class_name obj1 = class_name obj2")
    case True
    then show ?thesis
      using Cons.IH by (simp add: Let_def y_def [symmetric] q s del: of_int_diff of_int_abs)
  next
    case False
    then show ?thesis using Cons.IH by simp
  qed
qed

lemma map_without_position_update:
  "map without_position (store[i := (store ! i)\<lparr>position_3d := p\<rparr>]) = map without_position store"
proof (cases "i < length store")
  case True
  have "map without_position (store[i := (store ! i)\<lparr>position_3d := p\<rparr>]) =
      (map without_position store)[i := without_position ((store ! i)\<lparr>position_3d := p\<rparr>)]"
    by (rule map_update)
  also have "without_position ((store ! i)\<lparr>position_3d := p\<rparr>) = map without_position store ! i"
    using True by (simp add: without_position_def)
  also have "(map without_position store)[i := map without_position store ! i] =
      map without_position store"
    by (rule list_update_id)
  finally show ?thesis .
next
  case False
  then have "store[i := (store ! i)\<lparr>position_3d := p\<rparr>] = store"
    by (intro list_update_beyond) simp
  then show ?thesis by simp
qed

lemma positions_loop1_shape:
  "\<exists>store1'. positions_loop1 refs objects2 store1 = Inr store1' \<and>
     map without_position store1' = map without_position store1"
proof (induction refs arbitrary: store1)
  case Nil
  then show ?case by simp
next
  case (Cons i refs)
  obtain bm where bm: "match_loop (store1 ! i) objects2 None 0 = Inr bm"
    using match_loop_total by blast
  define pos where "pos = (case bm of
      Some obj2 \<Rightarrow> triangulate_position (store1 ! i) obj2
    | None \<Rightarrow> estimate_single_camera_position (store1 ! i) ''camera1'')"
  define next_store where "next_store = (case pos of
      None \<Rightarrow> store1
    | Some p \<Rightarrow> store1[i := (store1 ! i)\<lparr>position_3d := Some p\<rparr>])"
  have n: "map without_position next_store = map without_position store1"
    unfolding next_store_def by (cases pos) (simp_all add: map_without_position_update)
  have "positions_loop1 (i # refs) objects2 store1 = positions_loop1 refs objects2 next_store"
    by (simp add: bm Let_def pos_def next_store_def)
  then show ?case using Cons.IH [of next_store] n by simp
qed

lemma positions_loop2_shape:
  "map without_position (positions_loop2 refs store2) = map without_position store2"
proof (induction refs arbitrary: store2)
  case Nil
  then show ?case by simp
next
  case (Cons j refs)
  show ?case
  proof (cases "position_3d (store2 ! j) = None")
    case True
    show ?thesis
    proof (cases "estimate_single_camera_position (store2 ! j) ''camera2''")
      case None
      then show ?thesis using True Cons.IH by simp
    next
      case (Some p)
      then show ?thesis
        using True Cons.IH [of "store2[j := (store2 ! j)\<lparr>position_3d := Some p\<rparr>]"]
        by (simp add: map_without_position_update)
    qed
  next
    case False
    then have "positions_loop2 (j # refs) store2 = positions_loop2 refs store2"
      by (auto simp: Let_def)
    then show ?thesis using Cons.IH by simp
  qed
qed

lemma calculate_3d_positions_shape:
  "\<exists>store1' store2'.
     calculate_3d_positions (store1, refs1) (store2, refs2) = Inr (store1', store2') \<and>
     map without_position store1' = map without_position store1 \<and>
     map without_position store2' = map without_position store2"
proof -
  obtain store1' where s: "positions_loop1 refs1 (deref (store2, refs2)) store1 = Inr store1'"
    "map without_position store1' = map without_position store1"
    using positions_loop1_shape by blast
  then show ?thesis
    by (simp add: calculate_3d_positions_def positions_loop2_shape)
qed

lemma track_objects_total: "\<exists>r. track_objects yolo trackers frame1 frame2 = Inr r"
proof -
  define t1 where "t1 = (case frame1 of
      None \<Rightarrow> ([], [])
    | Some f \<Rightarrow> update_deepsort_tracking trackers f (detect_objects yolo f ''camera1'') ''camera1'')"
  define t2 where "t2 = (case frame2 of
      None \<Rightarrow> ([], [])
    | Some f \<Rightarrow> update_deepsort_tracking trackers f (detect_objects yolo f ''camera2'') ''camera2'')"
  obtain s1' s2' where "calculate_3d_positions (fst t1, snd t1) (fst t2, snd t2) = Inr (s1', s2')"
    using calculate_3d_positions_shape by blast
  then have "calculate_3d_positions t1 t2 = Inr (s1', s2')" by simp
  then show ?thesis
    unfolding track_objects_def t1_def [symmetric] t2_def [symmetric] by (simp add: Let_def)
qed

lemma deref_all: "deref (store, [0 ..< length store]) = store"
  by (simp add: deref_def map_nth)

lemma tracks_loop_no_objects: "tracks_loop ts [] [] = ([], Inr [])"
  by (induction ts) (simp_all add: Let_def split: prod.splits)

lemma update_deepsort_tracking_no_objects:
  "update_deepsort_tracking trackers frm [] cam = ([], [])"
  by (simp add: update_deepsort_tracking_def tracks_loop_no_objects
      split: option.splits sum.splits)

lemma detect_objects_raises:
  "predict m frm = Inl e \<Longrightarrow> detect_objects (Some m) frm cam = []"
  by (simp add: detect_objects_def)

lemma boxes_loop_fresh:
  assumes "boxes_loop nm cam boxes acc = Inr objs" "\<forall>obj \<in> set acc. position_3d obj = None"
  shows "\<forall>obj \<in> set objs. position_3d obj = None"
  using assms
proof (induction boxes arbitrary: acc)
  case Nil
  then show ?case by simp
next
  case (Cons box boxes)
  obtain x y w h where b: "raw_bbox box = (x, y, w, h)" by (metis prod_cases4)
  show ?case
  proof (cases "nm (py_int (cls box))")
    case None
    then show ?thesis using Cons.prems by (simp add: b)
  next
    case (Some n)
    let ?o = "DetectedObject (x, y, w, h) (conf box) (py_int (cls box)) n cam"
    have "boxes_loop nm cam boxes (acc @ [?o]) = Inr objs \<or> boxes_loop nm cam boxes acc = Inr objs"
      using Cons.prems(1) by (auto simp: b Some Let_def split: if_splits)
    moreover have "\<forall>obj \<in> set (acc @ [?o]). position_3d obj = None"
      using Cons.prems(2) by (simp add: DetectedObject_def)
    ultimately show ?thesis using Cons.IH Cons.prems(2) by blast
  qed
qed

lemma results_loop_fresh:
  assumes "results_loop nm cam results acc = Inr objs" "\<forall>obj \<in> set acc. position_3d obj = None"
  shows "\<forall>obj \<in> set objs. position_3d obj = None"
  using assms
proof (induction nm cam results acc rule: results_loop.induct)
  case (1 nm cam acc)
  then show ?case by simp
next
  case (2 nm cam results acc)
  then show ?case by simp
next
  case (3 nm cam boxes results acc)
  obtain acc' where a: "boxes_loop nm cam boxes acc = Inr acc'"
    using "3.prems"(1) by (cases "boxes_loop nm cam boxes acc") auto
  have "\<forall>obj \<in> set acc'. position_3d obj = None"
    using a "3.prems"(2) by (rule boxes_loop_fresh)
  moreover have "results_loop nm cam results acc' = Inr objs"
    using "3.prems"(1) by (simp add: a)
  ultimately show ?case using "3.IH" [OF a] by blast
qed

lemma detect_objects_fresh:
  "map without_position (detect_objects yolo frm cam) = detect_objects yolo frm cam"
proof -
  have "\<forall>obj \<in> set (detect_objects yolo frm cam). position_3d obj = None"
  proof (cases yolo)
    case None
    then show ?thesis by (simp add: detect_objects_def)
  next
    case (Some m)
    show ?thesis
    proof (cases "predict m frm")
      case (Inl e)
      then show ?thesis by (simp add: detect_objects_def Some)
    next
      case (Inr results)
      show ?thesis
      proof (cases "results_loop (names m) cam results []")
        case (Inl e)
        then show ?thesis by (simp add: detect_objects_def Some Inr)
      next
        case r: (Inr objs)
        have "\<forall>obj \<in> set objs. position_3d obj = None"
          using r by (rule results_loop_fresh) simp
        then show ?thesis by (simp add: detect_objects_def Some Inr r)
      qed
    qed
  qed
  then have "\<forall>obj \<in> set (detect_objects yolo frm cam). without_position obj = obj"
    by (simp add: without_position_def)
  then show ?thesis by (simp add: map_idI)
qed

lemma track_objects_detector_raises1:
  assumes "predict m f1 = Inl e"
  shows "track_objects (Some m) trackers (Some f1) frame2 = track_objects (Some m) trackers None frame2"
    and "\<exists>l2. track_objects (Some m) trackers (Some f1) frame2 = Inr ([], l2)"
proof -
  have d: "detect_objects (Some m) f1 ''camera1'' = []"
    using assms by (rule detect_objects_raises)
  show "track_objects (Some m) trackers (Some f1) frame2 = track_objects (Some m) trackers None frame2"
    by (simp add: track_objects_def d update_deepsort_tracking_no_objects)
  show "\<exists>l2. track_objects (Some m) trackers (Some f1) frame2 = Inr ([], l2)"
    by (simp add: track_objects_def d update_deepsort_tracking_no_objects Let_def deref_def)
qed

lemma track_objects_detector_raises2:
  assumes "predict m f2 = Inl e"
  shows "track_objects (Some m) trackers frame1 (Some f2) = track_objects (Some m) trackers frame1 None"
    and "\<exists>l1. track_objects (Some m) trackers frame1 (Some f2) = Inr (l1, [])"
proof -
  have d: "detect_objects (Some m) f2 ''camera2'' = []"
    using assms by (rule detect_objects_raises)
  show "track_objects (Some m) trackers frame1 (Some f2) = track_objects (Some m) trackers frame1 None"
    by (simp add: track_objects_def d update_deepsort_tracking_no_objects)
  show "\<exists>l1. track_objects (Some m) trackers frame1 (Some f2) = Inr (l1, [])"
    by (simp add: track_objects_def d update_deepsort_tracking_no_objects Let_def deref_def)
qed

lemma update_deepsort_tracking_raises:
  assumes "trackers cam = Some t" "t (detections_of objs) frm = Inl e"
  shows "update_deepsort_tracking trackers frm objs cam = (objs, [0 ..< length objs])"
  using assms by (simp add: update_deepsort_tracking_def detections_of_def)

lemma deref_same_shape:
  assumes "map without_position store' = map without_position store"
  shows "map without_position (deref (store', [0 ..< length store])) = map without_position store"
proof -
  have "length store' = length store" using assms by (metis length_map)
  then have "deref (store', [0 ..< length store]) = store'"
    using deref_all [of store'] by simp
  then show ?thesis using assms by simp
qed

lemma track_objects_tracker_raises1:
  assumes "trackers ''camera1'' = Some t" 
    "t (detections_of (detect_objects yolo f1 ''camera1'')) f1 = Inl e"
  shows "\<exists>l1 l2. track_objects yolo trackers (Some f1) frame2 = Inr (l1, l2) \<and>
     map without_position l1 = detect_objects yolo f1 ''camera1''"
proof -
  define D where "D = detect_objects yolo f1 ''camera1''"
  define t2 where "t2 = (case frame2 of
      None \<Rightarrow> ([], [])
    | Some f \<Rightarrow> update_deepsort_tracking trackers f (detect_objects yolo f ''camera2'') ''camera2'')"
  have u: "update_deepsort_tracking trackers f1 D ''camera1'' = (D, [0 ..< length D])"
    using assms unfolding D_def by (rule update_deepsort_tracking_raises)
  have fr: "map without_position D = D" unfolding D_def by (rule detect_objects_fresh)
  obtain s1' s2' where c: "calculate_3d_positions (D, [0 ..< length D]) (fst t2, snd t2) = Inr (s1', s2')"
    "map without_position s1' = map without_position D"
    using calculate_3d_positions_shape by blast
  have m: "map without_position (deref (s1', [0 ..< length D])) = D"
    using deref_same_shape [OF c(2)] fr by simp
  have t: "track_objects yolo trackers (Some f1) frame2 =
      (if [0 ..< length D] \<noteq> [] \<and> snd t2 \<noteq> []
       then Inr (deref (s1', [0 ..< length D]), deref (s2', snd t2))
       else Inr (deref (D, [0 ..< length D]), deref t2))"
  proof -
    have u': "update_deepsort_tracking trackers f1 (detect_objects yolo f1 ''camera1'') ''camera1'' =
        (D, [0 ..< length D])"
      using u by (simp only: D_def)
    have c': "calculate_3d_positions (D, [0 ..< length D]) t2 = Inr (s1', s2')"
      using c(1) by simp
    show ?thesis
      unfolding track_objects_def t2_def [symmetric] Let_def
      by (simp only: option.case u' c' snd_conv sum.case prod.case)
  qed
  show ?thesis
    unfolding D_def [symmetric] t using m fr by (simp add: deref_all)
qed

lemma track_objects_tracker_raises2:
  assumes "trackers ''camera2'' = Some t" 
    "t (detections_of (detect_objects yolo f2 ''camera2'')) f2 = Inl e"
  shows "\<exists>l1 l2. track_objects yolo trackers frame1 (Some f2) = Inr (l1, l2) \<and>
     map without_position l2 = detect_objects yolo f2 ''camera2''"
proof -
  define D where "D = detect_objects yolo f2 ''camera2''"
  define t1 where "t1 = (case frame1 of
      None \<Rightarrow> ([], [])
    | Some f \<Rightarrow> update_deepsort_tracking trackers f (detect_objects yolo f ''camera1'') ''camera1'')"
  have u: "update_deepsort_tracking trackers f2 D ''camera2'' = (D, [0 ..< length D])"
    using assms unfolding D_def by (rule update_deepsort_tracking_raises)
  have fr: "map without_position D = D" unfolding D_def by (rule detect_objects_fresh)
  obtain s1' s2' where c: "calculate_3d_positions (fst t1, snd t1) (D, [0 ..< length D]) = Inr (s1', s2')"
    "map without_position s2' = map without_position D"
    using calculate_3d_positions_shape by blast
  have m: "map without_position (deref (s2', [0 ..< length D])) = D"
    using deref_same_shape [OF c(2)] fr by simp
  have t: "track_objects yolo trackers frame1 (Some f2) =
      (if snd t1 \<noteq> [] \<and> [0 ..< length D] \<noteq> []
       then Inr (deref (s1', snd t1), deref (s2', [0 ..< length D]))
       else Inr (deref t1, deref (D, [0 ..< length D])))"
  proof -
    have u': "update_deepsort_tracking trackers f2 (detect_objects yolo f2 ''camera2'') ''camera2'' =
        (D, [0 ..< length D])"
      using u by (simp only: D_def)
    have c': "calculate_3d_positions t1 (D, [0 ..< length D]) = Inr (s1', s2')"
      using c(1) by simp
    show ?thesis
      unfolding track_objects_def t1_def [symmetric] Let_def
      by (simp only: option.case u' c' snd_conv sum.case prod.case)
  qed
  show ?thesis
    unfolding D_def [symmetric] t using m fr by (simp add: deref_all)
qed

text \<open>
  Claim C4, as the code has it. A tracking cycle never fails. If the detector raises for
  one source, that source's object list is empty and the cycle gives what it gives when
  that source has no frame. If the identity tracker raises in its update for one source,
  that source's object list is the list of its filtered detections, without identities
  and up to the positions the cycle then assigns; it is not emptied.
\<close>

theorem track_objects_failures:
  "(\<exists>r. track_objects yolo trackers frame1 frame2 = Inr r) \<and>
   (yolo = Some m \<and> predict m f1 = Inl e \<longrightarrow>
      track_objects yolo trackers (Some f1) frame2 = track_objects yolo trackers None frame2 \<and>
      (\<exists>l2. track_objects yolo trackers (Some f1) frame2 = Inr ([], l2))) \<and>
   (yolo = Some m \<and> predict m f2 = Inl e \<longrightarrow>
      track_objects yolo trackers frame1 (Some f2) = track_objects yolo trackers frame1 None \<and>
      (\<exists>l1. track_objects yolo trackers frame1 (Some f2) = Inr (l1, []))) \<and>
   (trackers ''camera1'' = Some t \<and>
    t (detections_of (detect_objects yolo f1 ''camera1'')) f1 = Inl e \<longrightarrow>
      (\<exists>l1 l2. track_objects yolo trackers (Some f1) frame2 = Inr (l1, l2) \<and>
         map without_position l1 = detect_objects yolo f1 ''camera1'')) \<and>
   (trackers ''camera2'' = Some t \<and>
    t (detections_of (detect_objects yolo f2 ''camera2'')) f2 = Inl e \<longrightarrow>
      (\<exists>l1 l2. track_objects yolo trackers frame1 (Some f2) = Inr (l1, l2) \<and>
         map without_position l2 = detect_objects yolo f2 ''camera2''))"
  using track_objects_total [of yolo trackers frame1 frame2]
    track_objects_detector_raises1 [of m f1 e trackers frame2]
    track_objects_detector_raises2 [of m f2 e trackers frame1]
    track_objects_tracker_raises1 [of trackers t yolo f1 e frame2]
    track_objects_tracker_raises2 [of trackers t yolo f2 e frame1]
  by blast

theorem track_objects_failures_witness:
  "predict raising_yolo () = Inl DetectorError \<and>
   track_objects (Some raising_yolo) failing_trackers (Some ()) (Some ()) = Inr ([], []) \<and>
   failing_trackers ''camera1'' = Some raising_tracker \<and>
   failing_trackers ''camera2'' = Some raising_tracker \<and>
   raising_tracker (detections_of (detect_objects (Some example_yolo) () ''camera1'')) () =
     Inl TrackerError \<and>
   (\<exists>l1 l2. track_objects (Some example_yolo) failing_trackers (Some ()) (Some ()) = Inr (l1, l2) \<and>
      map without_position l1 = [DetectedObject (10, 20, 100, 100) (9 / 10) 2 ''car'' ''camera1''] \<and>
      map without_position l2 = [DetectedObject (10, 20, 100, 100) (9 / 10) 2 ''car'' ''camera2''])"
proof -
  have p: "predict raising_yolo () = Inl DetectorError" by (simp add: raising_yolo_def)
  have f: "failing_trackers ''camera1'' = Some raising_tracker"
    "failing_trackers ''camera2'' = Some raising_tracker"
    by (simp_all add: failing_trackers_def)
  have r: "raising_tracker (detections_of (detect_objects (Some example_yolo) () ''camera1'')) () =
      Inl TrackerError"
    "raising_tracker (detections_of (detect_objects (Some example_yolo) () ''camera2'')) () =
      Inl TrackerError"
    by (simp_all add: raising_tracker_def)
  have d: "detect_objects (Some example_yolo) () ''camera1'' =
      [DetectedObject (10, 20, 100, 100) (9 / 10) 2 ''car'' ''camera1'']"
    "detect_objects (Some example_yolo) () ''camera2'' =
      [DetectedObject (10, 20, 100, 100) (9 / 10) 2 ''car'' ''camera2'']"
    by code_simp+
  note t1 = track_objects_failures [of "Some raising_yolo" failing_trackers "Some ()" "Some ()"
      raising_yolo "()" DetectorError "()" raising_tracker]
  note t2 = track_objects_failures [of "Some example_yolo" failing_trackers "Some ()" "Some ()"
      example_yolo "()" TrackerError "()" raising_tracker]
  have a: "\<exists>l2. track_objects (Some raising_yolo) failing_trackers (Some ()) (Some ()) = Inr ([], l2)"
    using t1 p by blast
  have b: "\<exists>l1. track_objects (Some raising_yolo) failing_trackers (Some ()) (Some ()) = Inr (l1, [])"
    using t1 p by blast
  have e: "track_objects (Some raising_yolo) failing_trackers (Some ()) (Some ()) = Inr ([], [])"
    using a b by auto
  obtain l1 l2 where c1: "track_objects (Some example_yolo) failing_trackers (Some ()) (Some ()) =
      Inr (l1, l2)"
    "map without_position l1 = detect_objects (Some example_yolo) () ''camera1''"
    using t2 f r by blast
  obtain k1 k2 where c2: "track_objects (Some example_yolo) failing_trackers (Some ()) (Some ()) =
      Inr (k1, k2)"
    "map without_position k2 = detect_objects (Some example_yolo) () ''camera2''"
    using t2 f r by blast
  have "k2 = l2" using c1(1) c2(1) by simp
  then have "map without_position l2 = detect_objects (Some example_yolo) () ''camera2''"
    using c2(2) by simp
  then have m2: "map without_position l2 =
      [DetectedObject (10, 20, 100, 100) (9 / 10) 2 ''car'' ''camera2'']"
    by (simp only: d)
  have m1: "map without_position l1 =
      [DetectedObject (10, 20, 100, 100) (9 / 10) 2 ''car'' ''camera1'']"
    using c1(2) by (simp only: d)
  have "\<exists>l1 l2. track_objects (Some example_yolo) failing_trackers (Some ()) (Some ()) =
        Inr (l1, l2) \<and>
      map without_position l1 = [DetectedObject (10, 20, 100, 100) (9 / 10) 2 ''car'' ''camera1''] \<and>
      map without_position l2 = [DetectedObject (10, 20, 100, 100) (9 / 10) 2 ''car'' ''camera2'']"
    using c1(1) m1 m2 by (intro exI conjI)
  then show ?thesis using p e f r by blast
qed

theorem track_objects_tracker_error_counterexample:
  "(case failing_trackers ''camera1'' of
      None \<Rightarrow> Inr []
    | Some t \<Rightarrow> t (detections_of (detect_objects (Some example_yolo) () ''camera1'')) ()) =
     Inl TrackerError \<and>
   track_objects (Some example_yolo) failing_trackers (Some ()) None =
     Inr ([DetectedObject (10, 20, 100, 100) (9 / 10) 2 ''car'' ''camera1''], [])"
  by code_simp

section \<open>Properties of the identity assignment\<close>




lemma tracks_loop_unconfirmed:
  "\<not> is_confirmed t \<Longrightarrow> tracks_loop (t # ts) store out = tracks_loop ts store out"
  by simp











end
